theory Spec2Isabelle
  imports Main "HOL-Library.Word"
begin

section \<open>Strings, bytes and exceptions\<close>

text \<open>
  Python \<open>str\<close> values are modelled as \<open>string\<close>: one \<open>char\<close> per code point, code
  points below 256. Python \<open>bytes\<close> are lists of 8-bit words. Python integers are
  unbounded and modelled as \<open>int\<close>; \<open>int()\<close> has the interpreter's default limit on
  the number of digits of a decimal string. Calls of \<open>print\<close> are not modelled.
\<close>

type_synonym byte = "8 word"
type_synonym bytes = "byte list"

text \<open>The exceptions that \<open>parse_audio_mime_type\<close> catches around \<open>int()\<close> and indexing.\<close>

datatype parse_error = ValueError | IndexError

text \<open>\<open>str.isspace\<close> on a single code point below 256.\<close>

definition isspace :: "char \<Rightarrow> bool" where
  "isspace c = (let n = (of_char c :: nat) in
     (9 \<le> n \<and> n \<le> 13) \<or> (28 \<le> n \<and> n \<le> 32) \<or> n = 133 \<or> n = 160)"

text \<open>\<open>str.strip()\<close> with no argument.\<close>

definition strip :: "string \<Rightarrow> string" where
  "strip s = rev (dropWhile isspace (rev (dropWhile isspace s)))"

text \<open>\<open>str.lower()\<close>: the letters A-Z and the Latin-1 capitals get 32 added.\<close>

definition lower_char :: "char \<Rightarrow> char" where
  "lower_char c = (let n = (of_char c :: nat) in
     if (65 \<le> n \<and> n \<le> 90) \<or> (192 \<le> n \<and> n \<le> 222 \<and> n \<noteq> 215)
     then char_of (n + 32) else c)"

definition lower :: "string \<Rightarrow> string" where
  "lower s = map lower_char s"

text \<open>\<open>s.startswith(p)\<close>.\<close>

definition startswith :: "string \<Rightarrow> string \<Rightarrow> bool" where
  "startswith s p = (take (length p) s = p)"

text \<open>\<open>sub in s\<close> for strings.\<close>

fun contains :: "string \<Rightarrow> string \<Rightarrow> bool" where
  "contains sub [] = (sub = [])"
| "contains sub (c # cs) = (startswith (c # cs) sub \<or> contains sub cs)"

text \<open>\<open>s.split(sep)\<close> for a one-character separator: every occurrence splits.\<close>

fun split_on :: "char \<Rightarrow> string \<Rightarrow> string list" where
  "split_on sep [] = [[]]"
| "split_on sep (c # cs) =
     (if c = sep then [] # split_on sep cs
      else (case split_on sep cs of
              w # ws \<Rightarrow> (c # w) # ws
            | [] \<Rightarrow> [[c]]))"

text \<open>\<open>s.split(sep, 1)\<close>: only the first occurrence splits.\<close>

fun split1 :: "char \<Rightarrow> string \<Rightarrow> string list" where
  "split1 sep [] = [[]]"
| "split1 sep (c # cs) =
     (if c = sep then [[], cs]
      else (case split1 sep cs of
              w # ws \<Rightarrow> (c # w) # ws
            | [] \<Rightarrow> [[c]]))"

text \<open>\<open>xs[i]\<close> for a non-negative index: IndexError out of range.\<close>

definition index :: "'a list \<Rightarrow> nat \<Rightarrow> parse_error + 'a" where
  "index xs i = (if i < length xs then Inr (xs ! i) else Inl IndexError)"

subsection \<open>\<open>int(str)\<close>\<close>

text \<open>
  \<open>int(s)\<close> in base 10: optional surrounding whitespace, an optional sign, then decimal
  digits in which single underscores may stand between two digits. The whitespace that
  \<open>int()\<close> skips is the C set (tab to carriage return, space), and the two non-ASCII
  spaces 0x85 and 0xA0, which the conversion turns into spaces first; the separators
  0x1C to 0x1F are whitespace for \<open>strip\<close> but not for \<open>int()\<close>. A string with more
  digits than \<open>sys.get_int_max_str_digits()\<close>, 4300 by default, raises ValueError; the
  sign, the whitespace and the underscores do not count, leading zeros do.
\<close>

definition int_max_str_digits :: nat where
  "int_max_str_digits = 4300"

definition int_space :: "char \<Rightarrow> bool" where
  "int_space c = (let n = (of_char c :: nat) in
     (9 \<le> n \<and> n \<le> 13) \<or> n = 32 \<or> n = 133 \<or> n = 160)"

definition isdigit :: "char \<Rightarrow> bool" where
  "isdigit c = (let n = (of_char c :: nat) in 48 \<le> n \<and> n \<le> 57)"

definition digit_val :: "char \<Rightarrow> nat" where
  "digit_val c = of_char c - 48"

text \<open>The digits after the first one, with the value read so far.\<close>

fun scan_digits :: "nat \<Rightarrow> string \<Rightarrow> (nat \<times> string) option" where
  "scan_digits acc [] = Some (acc, [])"
| "scan_digits acc (c # cs) =
     (if isdigit c then scan_digits (acc * 10 + digit_val c) cs
      else if c = CHR ''_'' then
        (case cs of
           [] \<Rightarrow> None
         | d # ds \<Rightarrow> if isdigit d then scan_digits (acc * 10 + digit_val d) ds else None)
      else Some (acc, c # cs))"

text \<open>The number of digits in the run of digits and underscores that the scan reads.\<close>

fun count_digits :: "string \<Rightarrow> nat" where
  "count_digits [] = 0"
| "count_digits (c # cs) =
     (if isdigit c then Suc (count_digits cs)
      else if c = CHR ''_'' then count_digits cs
      else 0)"

definition py_int :: "string \<Rightarrow> parse_error + int" where
  "py_int s =
     (let s1 = dropWhile int_space s;
          neg = (case s1 of [] \<Rightarrow> False | c # _ \<Rightarrow> c = CHR ''-'');
          s2 = (case s1 of [] \<Rightarrow> []
                | c # cs \<Rightarrow> if c = CHR ''+'' \<or> c = CHR ''-'' then cs else s1)
      in case s2 of
           [] \<Rightarrow> Inl ValueError
         | c # cs \<Rightarrow>
             if isdigit c then
               (case scan_digits (digit_val c) cs of
                  None \<Rightarrow> Inl ValueError
                | Some (n, rest) \<Rightarrow>
                    if int_max_str_digits < Suc (count_digits cs) then Inl ValueError
                    else if list_all int_space rest
                    then Inr (if neg then - int n else int n)
                    else Inl ValueError)
             else Inl ValueError)"

section \<open>\<open>parse_audio_mime_type\<close>\<close>

record audio_params =
  bits_per_sample :: int
  rate :: int

text \<open>\<open>int(param.split("=", 1)[1])\<close> and \<open>int(param.split("L", 1)[1])\<close>.\<close>

definition int_after :: "char \<Rightarrow> string \<Rightarrow> parse_error + int" where
  "int_after sep param =
     (case index (split1 sep param) 1 of
        Inl e \<Rightarrow> Inl e
      | Inr v \<Rightarrow> py_int v)"

text \<open>One pass of the loop body over a segment; a caught exception leaves the value.\<close>

definition parse_param :: "audio_params \<Rightarrow> string \<Rightarrow> audio_params" where
  "parse_param st param0 =
     (let param = strip param0 in
      if startswith (lower param) ''rate='' then
        (case int_after CHR ''='' param of
           Inr v \<Rightarrow> st\<lparr>rate := v\<rparr>
         | Inl ValueError \<Rightarrow> st
         | Inl IndexError \<Rightarrow> st)
      else if startswith param ''audio/L'' then
        (case int_after CHR ''L'' param of
           Inr v \<Rightarrow> st\<lparr>bits_per_sample := v\<rparr>
         | Inl ValueError \<Rightarrow> st
         | Inl IndexError \<Rightarrow> st)
      else st)"

definition parse_audio_mime_type :: "string \<Rightarrow> audio_params" where
  "parse_audio_mime_type mime_type =
     foldl parse_param \<lparr>bits_per_sample = 16, rate = 24000\<rparr> (split_on CHR '';'' mime_type)"

section \<open>\<open>struct.pack\<close> and \<open>convert_to_wav\<close>\<close>

text \<open>
  Exceptions that reach the handler of \<open>generate_speech_with_gemini\<close>: one raised by
  the provider (with its text), the IndexError of \<open>xs[0]\<close> on an empty list, and
  \<open>struct.error\<close> (with the format code and the value that did not fit).
\<close>

datatype exn = UpstreamError string | ListIndexError | StructError char int

text \<open>\<open>n\<close> bytes of \<open>v\<close>, least significant first.\<close>

fun le_bytes :: "nat \<Rightarrow> int \<Rightarrow> bytes" where
  "le_bytes 0 v = []"
| "le_bytes (Suc n) v = word_of_int v # le_bytes n (v div 256)"

text \<open>Format codes \<open><I\<close> and \<open><H\<close>: \<open>struct.error\<close> outside the unsigned range.\<close>

definition pack_I :: "int \<Rightarrow> exn + bytes" where
  "pack_I v = (if 0 \<le> v \<and> v < 2 ^ 32 then Inr (le_bytes 4 v) else Inl (StructError CHR ''I'' v))"

definition pack_H :: "int \<Rightarrow> exn + bytes" where
  "pack_H v = (if 0 \<le> v \<and> v < 2 ^ 16 then Inr (le_bytes 2 v) else Inl (StructError CHR ''H'' v))"

text \<open>A bytes literal such as \<open>b"RIFF"\<close>; format code \<open>4s\<close> copies its four bytes.\<close>

definition ascii :: "string \<Rightarrow> bytes" where
  "ascii s = map of_char s"

text \<open>The fields are packed in order; the first one that fails raises.\<close>

fun pack_seq :: "(exn + bytes) list \<Rightarrow> exn + bytes" where
  "pack_seq [] = Inr []"
| "pack_seq (f # fs) =
     (case f of
        Inl e \<Rightarrow> Inl e
      | Inr b \<Rightarrow> (case pack_seq fs of Inl e \<Rightarrow> Inl e | Inr bs \<Rightarrow> Inr (b @ bs)))"

text \<open>The body of \<open>convert_to_wav\<close> after the MIME type is parsed.\<close>

definition wav_of_params :: "bytes \<Rightarrow> audio_params \<Rightarrow> exn + bytes" where
  "wav_of_params audio_data parameters =
     (let sample_rate = rate parameters;
          num_channels = 1;
          data_size = int (length audio_data);
          bytes_per_sample = bits_per_sample parameters div 8;
          block_align = num_channels * bytes_per_sample;
          byte_rate = sample_rate * block_align;
          chunk_size = 36 + data_size
      in case pack_seq
           [Inr (ascii ''RIFF''), pack_I chunk_size, Inr (ascii ''WAVE''), Inr (ascii ''fmt ''),
            pack_I 16, pack_H 1, pack_H num_channels, pack_I sample_rate, pack_I byte_rate,
            pack_H block_align, pack_H (bits_per_sample parameters), Inr (ascii ''data''),
            pack_I data_size] of
           Inl e \<Rightarrow> Inl e
         | Inr header \<Rightarrow> Inr (header @ audio_data))"

definition convert_to_wav :: "bytes \<Rightarrow> string \<Rightarrow> exn + bytes" where
  "convert_to_wav audio_data mime_type = wav_of_params audio_data (parse_audio_mime_type mime_type)"

section \<open>The silent container\<close>

text \<open>
  The standard library's \<open>wave\<close> writer, as used by the fallback: after \<open>setnchannels\<close>,
  \<open>setsampwidth\<close>, \<open>setframerate\<close> and \<open>writeframes\<close>, closing the writer leaves the
  44-byte PCM header, with the sizes of the frames written, followed by the frames.
\<close>

definition wave_file :: "int \<Rightarrow> int \<Rightarrow> int \<Rightarrow> bytes \<Rightarrow> exn + bytes" where
  "wave_file nchannels sampwidth framerate frames =
     (let datalength = int (length frames)
      in case pack_seq
           [Inr (ascii ''RIFF''), pack_I (36 + datalength), Inr (ascii ''WAVE''),
            Inr (ascii ''fmt ''), pack_I 16, pack_H 1, pack_H nchannels, pack_I framerate,
            pack_I (nchannels * framerate * sampwidth), pack_H (nchannels * sampwidth),
            pack_H (sampwidth * 8), Inr (ascii ''data''), pack_I datalength] of
           Inl e \<Rightarrow> Inl e
         | Inr header \<Rightarrow> Inr (header @ frames))"

text \<open>\<open>b'\x00\x00' * (24000 * 1)\<close>.\<close>

definition silence :: bytes where
  "silence = concat (replicate (24000 * 1) [0, 0])"

definition minimal_wav :: "exn + bytes" where
  "minimal_wav = wave_file 1 2 24000 silence"

section \<open>\<open>generate_speech_with_gemini\<close>\<close>

text \<open>The parts of a streamed response that the loop reads; every level may be absent.\<close>

record blob =
  data :: "bytes option"
  mime_type :: "string option"

record part =
  inline_data :: "blob option"
  part_text :: "string option"

record content =
  parts :: "part list option"

record candidate =
  content :: "content option"

record chunk =
  candidates :: "candidate list option"

text \<open>The variables of the streaming loop.\<close>

record loop_state =
  audio_buffer :: bytes
  stream_mime :: "string option"
  chunk_count :: nat

text \<open>
  The loop body. \<open>continue\<close> returns the state unchanged; \<open>[0]\<close> on an empty list
  raises. A blob counts when it is present and its data is present and not empty.
\<close>

definition process_chunk :: "chunk \<Rightarrow> loop_state \<Rightarrow> exn + loop_state" where
  "process_chunk c st =
     (case candidates c of
        None \<Rightarrow> Inr st
      | Some [] \<Rightarrow> Inl ListIndexError
      | Some (cand # _) \<Rightarrow>
          (case content cand of
             None \<Rightarrow> Inr st
           | Some ct \<Rightarrow>
               (case parts ct of
                  None \<Rightarrow> Inr st
                | Some [] \<Rightarrow> Inl ListIndexError
                | Some (p # _) \<Rightarrow>
                    (case inline_data p of
                       None \<Rightarrow> Inr st
                     | Some b \<Rightarrow>
                         (case data b of
                            None \<Rightarrow> Inr st
                          | Some d \<Rightarrow>
                              if d \<noteq> [] then
                                Inr (st\<lparr>chunk_count := chunk_count st + 1,
                                        audio_buffer := audio_buffer st @ d,
                                        stream_mime := (if stream_mime st = None then mime_type b
                                                        else stream_mime st)\<rparr>)
                              else Inr st)))))"

text \<open>
  The \<open>for\<close> loop over the stream: the chunks the provider yields, then either the end
  of the stream or the exception the provider raises (given by its text).
\<close>

fun stream_loop :: "chunk list \<Rightarrow> string option \<Rightarrow> loop_state \<Rightarrow> exn + loop_state" where
  "stream_loop [] None st = Inr st"
| "stream_loop [] (Some msg) st = Inl (UpstreamError msg)"
| "stream_loop (c # cs) failure st =
     (case process_chunk c st of
        Inl e \<Rightarrow> Inl e
      | Inr st' \<Rightarrow> stream_loop cs failure st')"

text \<open>
  What the function takes from outside: the provider's answer to a request (the chunks
  and, if it raises, the text of the exception), \<open>mimetypes.guess_extension\<close>, whose
  table depends on the system, and the text of a \<open>struct.error\<close>, which depends on the
  interpreter.
\<close>

record env =
  provider :: "string \<Rightarrow> chunk list \<times> string option"
  guess_extension :: "string \<Rightarrow> string option"
  struct_error_text :: "char \<Rightarrow> int \<Rightarrow> string"

text \<open>\<open>str(e)\<close>.\<close>

fun str_exn :: "env \<Rightarrow> exn \<Rightarrow> string" where
  "str_exn ev (UpstreamError msg) = msg"
| "str_exn ev ListIndexError = ''list index out of range''"
| "str_exn ev (StructError f v) = struct_error_text ev f v"

definition is_quota_error :: "string \<Rightarrow> bool" where
  "is_quota_error error_str =
     (contains ''429'' error_str \<or> contains ''RESOURCE_EXHAUSTED'' error_str
      \<or> contains ''quota'' (lower error_str))"

definition initial_state :: loop_state where
  "initial_state = \<lparr>audio_buffer = [], stream_mime = None, chunk_count = 0\<rparr>"

text \<open>The \<open>try\<close> block: \<open>Inl\<close> is the exception that leaves it.\<close>

definition try_block :: "env \<Rightarrow> string \<Rightarrow> exn + bytes" where
  "try_block ev text_in =
     (case provider ev text_in of (chunks, failure) \<Rightarrow>
        (case stream_loop chunks failure initial_state of
           Inl e \<Rightarrow> Inl e
         | Inr st \<Rightarrow>
             (let audio_data = audio_buffer st in
              if audio_data = [] then minimal_wav
              else
                (case stream_mime st of
                   None \<Rightarrow> Inr audio_data
                 | Some m \<Rightarrow>
                     if m \<noteq> [] then
                       (let file_extension = guess_extension ev m in
                        if file_extension = None \<or> file_extension \<noteq> Some ''.wav''
                        then convert_to_wav audio_data m
                        else Inr audio_data)
                     else Inr audio_data))))"

text \<open>The \<open>except Exception\<close> handler.\<close>

definition handler :: "env \<Rightarrow> exn \<Rightarrow> bytes" where
  "handler ev e =
     (if is_quota_error (str_exn ev e) then []
      else (case minimal_wav of Inr w \<Rightarrow> w | Inl e2 \<Rightarrow> []))"

definition generate_speech_with_gemini :: "env \<Rightarrow> string \<Rightarrow> bytes" where
  "generate_speech_with_gemini ev text_in =
     (case try_block ev text_in of
        Inr b \<Rightarrow> b
      | Inl e \<Rightarrow> handler ev e)"

section \<open>\<open>speak_text\<close>\<close>

record http_exception =
  status_code :: nat
  detail :: string

record streaming_response =
  body :: bytes
  media_type :: string

text \<open>
  The endpoint. Both \<open>ValueError\<close>s become \<open>HTTPException(400)\<close>;
  \<open>generate_speech_with_gemini\<close> catches every exception itself, so the 500 branch is
  not reached. The second component lists the requests handed to the provider.
\<close>

definition speak_text :: "env \<Rightarrow> string \<Rightarrow> (http_exception + streaming_response) \<times> string list" where
  "speak_text ev text_in =
     (if text_in = [] \<or> strip text_in = [] then
        (Inl \<lparr>status_code = 400,
              detail = ''ValueError in speak_text: Text cannot be empty or whitespace only''\<rparr>, [])
      else
        (let audio_data = generate_speech_with_gemini ev text_in in
         if audio_data = [] then
           (Inl \<lparr>status_code = 400,
                 detail = ''ValueError in speak_text: FATAL: Charon voice generation returned empty audio''\<rparr>,
            [text_in])
         else (Inr \<lparr>body = audio_data, media_type = ''audio/wav''\<rparr>, [text_in])))"

section \<open>Notions used in the statements\<close>

text \<open>The decimal numeral of a natural number, as in \<open>audio/L16;rate=24000\<close>.\<close>

fun dec :: "nat \<Rightarrow> string" where
  "dec n = (if n < 10 then [char_of (48 + n)] else dec (n div 10) @ [char_of (48 + n mod 10)])"

declare dec.simps [simp del]

text \<open>
  What one segment of the MIME string contributes: the integer that the \<open>rate=\<close> branch,
  or the \<open>audio/L\<close> branch, of the loop body reads from it, if it reads one.
\<close>

definition rate_of_segment :: "string \<Rightarrow> int option" where
  "rate_of_segment seg =
     (let param = strip seg in
      if startswith (lower param) ''rate='' then
        (case int_after CHR ''='' param of Inr v \<Rightarrow> Some v | Inl _ \<Rightarrow> None)
      else None)"

definition bits_of_segment :: "string \<Rightarrow> int option" where
  "bits_of_segment seg =
     (let param = strip seg in
      if \<not> startswith (lower param) ''rate='' \<and> startswith param ''audio/L'' then
        (case int_after CHR ''L'' param of Inr v \<Rightarrow> Some v | Inl _ \<Rightarrow> None)
      else None)"

text \<open>The invariant of a descriptor: whole bytes per sample, a positive rate.\<close>

definition descriptor_ok :: "audio_params \<Rightarrow> bool" where
  "descriptor_ok d = (0 < bits_per_sample d \<and> bits_per_sample d mod 8 = 0 \<and> 0 < rate d)"

text \<open>Reading a container back: the number that little-endian bytes encode, and the
  thirteen fields of the canonical 44-byte header.\<close>

fun le_value :: "bytes \<Rightarrow> nat" where
  "le_value [] = 0"
| "le_value (b # bs) = unat b + 256 * le_value bs"

definition slice :: "nat \<Rightarrow> nat \<Rightarrow> bytes \<Rightarrow> bytes" where
  "slice i j w = take (j - i) (drop i w)"

record wav_header =
  riff_tag :: bytes
  riff_size :: nat
  wave_tag :: bytes
  fmt_tag :: bytes
  fmt_size :: nat
  format_code :: nat
  channels :: nat
  sample_rate :: nat
  byte_rate :: nat
  block_align :: nat
  bits :: nat
  data_tag :: bytes
  data_size :: nat

definition read_header :: "bytes \<Rightarrow> wav_header" where
  "read_header w =
     \<lparr>riff_tag = slice 0 4 w, riff_size = le_value (slice 4 8 w), wave_tag = slice 8 12 w,
      fmt_tag = slice 12 16 w, fmt_size = le_value (slice 16 20 w),
      format_code = le_value (slice 20 22 w), channels = le_value (slice 22 24 w),
      sample_rate = le_value (slice 24 28 w), byte_rate = le_value (slice 28 32 w),
      block_align = le_value (slice 32 34 w), bits = le_value (slice 34 36 w),
      data_tag = slice 36 40 w, data_size = le_value (slice 40 44 w)\<rparr>"

text \<open>Every integer of the header fits the width of its field.\<close>

definition fields_fit :: "bytes \<Rightarrow> audio_params \<Rightarrow> bool" where
  "fields_fit audio_data d =
     (0 \<le> rate d \<and> rate d < 2 ^ 32 \<and> 0 \<le> bits_per_sample d \<and> bits_per_sample d < 2 ^ 16
      \<and> rate d * (bits_per_sample d div 8) < 2 ^ 32 \<and> 36 + int (length audio_data) < 2 ^ 32)"

text \<open>
  The three kinds of chunk, in the shape the loop reads: one part with an inline blob,
  one part with text only, and a chunk without candidates.
\<close>

definition audio_chunk :: "bytes \<Rightarrow> string \<Rightarrow> chunk" where
  "audio_chunk d m =
     \<lparr>candidates = Some [\<lparr>content = Some \<lparr>parts = Some
        [\<lparr>inline_data = Some \<lparr>data = Some d, mime_type = Some m\<rparr>, part_text = None\<rparr>]\<rparr>\<rparr>]\<rparr>"

definition text_chunk :: "string \<Rightarrow> chunk" where
  "text_chunk t =
     \<lparr>candidates = Some [\<lparr>content = Some \<lparr>parts = Some
        [\<lparr>inline_data = None, part_text = Some t\<rparr>]\<rparr>\<rparr>]\<rparr>"

definition empty_chunk :: chunk where
  "empty_chunk = \<lparr>candidates = None\<rparr>"

text \<open>A chunk whose blob has data but names no MIME type.\<close>

definition untyped_chunk :: "bytes \<Rightarrow> chunk" where
  "untyped_chunk d =
     \<lparr>candidates = Some [\<lparr>content = Some \<lparr>parts = Some
        [\<lparr>inline_data = Some \<lparr>data = Some d, mime_type = None\<rparr>, part_text = None\<rparr>]\<rparr>\<rparr>]\<rparr>"

text \<open>The part of a chunk that the loop body reaches, if it reaches one.\<close>

definition first_part :: "chunk \<Rightarrow> part option" where
  "first_part c =
     (case candidates c of
        Some (cand # _) \<Rightarrow>
          (case content cand of
             Some ct \<Rightarrow> (case parts ct of Some (p # _) \<Rightarrow> Some p | _ \<Rightarrow> None)
           | None \<Rightarrow> None)
      | _ \<Rightarrow> None)"

text \<open>The payload and MIME type of a payload-bearing chunk: a reached part whose blob
  has data that is not empty.\<close>

definition payload_of :: "chunk \<Rightarrow> (bytes \<times> string option) option" where
  "payload_of c =
     (case first_part c of
        None \<Rightarrow> None
      | Some p \<Rightarrow>
          (case inline_data p of
             None \<Rightarrow> None
           | Some b \<Rightarrow>
               (case data b of
                  None \<Rightarrow> None
                | Some d \<Rightarrow> if d \<noteq> [] then Some (d, mime_type b) else None)))"

text \<open>
  No list that the loop body indexes with \<open>[0]\<close> is empty: neither the candidate list
  nor, where the first candidate has content, its part list.
\<close>

definition indexable :: "chunk \<Rightarrow> bool" where
  "indexable c =
     (case candidates c of
        None \<Rightarrow> True
      | Some [] \<Rightarrow> False
      | Some (cand # _) \<Rightarrow>
          (case content cand of
             None \<Rightarrow> True
           | Some ct \<Rightarrow> parts ct \<noteq> Some []))"


text \<open>
  An environment for concrete runs: the provider answers every request with the given
  chunks and failure; the extension table knows \<open>audio/x-wav\<close> and \<open>audio/mpeg\<close>; the
  text of every \<open>struct.error\<close> is the given one.
\<close>

definition sample_env :: "chunk list \<Rightarrow> string option \<Rightarrow> string \<Rightarrow> env" where
  "sample_env chunks failure msg =
     \<lparr>provider = (\<lambda>_. (chunks, failure)),
      guess_extension = (\<lambda>m. if lower m = ''audio/x-wav'' then Some ''.wav''
                              else if lower m = ''audio/mpeg'' then Some ''.mp3'' else None),
      struct_error_text = (\<lambda>_ _. msg)\<rparr>"

text \<open>The text CPython 3.11 gives when an \<open>I\<close> field is above its range.\<close>

definition uint_range_text :: string where
  "uint_range_text = [CHR 0x27] @ ''I'' @ [CHR 0x27] @ '' format requires 0 <= number <= 4294967295''"

section \<open>Properties of the MIME parser\<close>

text \<open>The loop body in terms of what the segment contributes.\<close>

lemma parse_param_eq:
  "parse_param st seg =
     st\<lparr>bits_per_sample := (case bits_of_segment seg of None \<Rightarrow> bits_per_sample st | Some v \<Rightarrow> v),
        rate := (case rate_of_segment seg of None \<Rightarrow> rate st | Some v \<Rightarrow> v)\<rparr>"
  by (simp add: parse_param_def rate_of_segment_def bits_of_segment_def Let_def
           split: sum.splits parse_error.splits)

lemma foldl_rate_default:
  "\<forall>seg\<in>set segs. rate_of_segment seg = None \<Longrightarrow> rate (foldl parse_param st segs) = rate st"
  by (induction segs arbitrary: st) (simp_all add: parse_param_eq)

lemma foldl_bits_default:
  "\<forall>seg\<in>set segs. bits_of_segment seg = None \<Longrightarrow>
     bits_per_sample (foldl parse_param st segs) = bits_per_sample st"
  by (induction segs arbitrary: st) (simp_all add: parse_param_eq)

lemma foldl_descriptor_ok:
  "descriptor_ok st \<Longrightarrow>
   \<forall>seg\<in>set segs. (case bits_of_segment seg of None \<Rightarrow> True | Some v \<Rightarrow> 0 < v \<and> v mod 8 = 0) \<Longrightarrow>
   \<forall>seg\<in>set segs. (case rate_of_segment seg of None \<Rightarrow> True | Some v \<Rightarrow> 0 < v) \<Longrightarrow>
   descriptor_ok (foldl parse_param st segs)"
proof (induction segs arbitrary: st)
  case Nil
  then show ?case by simp
next
  case (Cons seg segs)
  have "descriptor_ok (parse_param st seg)"
    using Cons.prems by (auto simp: parse_param_eq descriptor_ok_def split: option.splits)
  then show ?case using Cons by simp
qed

lemma digit_char: "d < 10 \<Longrightarrow> isdigit (char_of (48 + d)) \<and> digit_val (char_of (48 + d)) = d"
  by (simp add: isdigit_def digit_val_def Let_def)

lemma dec_digits: "\<forall>c\<in>set (dec n). isdigit c"
proof (induction n rule: dec.induct)
  case (1 n)
  show ?case
  proof (cases "n < 10")
    case True
    then show ?thesis by (subst dec.simps) (simp add: digit_char)
  next
    case False
    then show ?thesis using 1 by (subst dec.simps) (simp add: digit_char)
  qed
qed

lemma dec_nonempty: "dec n \<noteq> []"
  by (subst dec.simps) simp

lemma scan_all_digits:
  "\<forall>c\<in>set ds. isdigit c \<Longrightarrow>
     scan_digits acc ds = Some (foldl (\<lambda>a c. a * 10 + digit_val c) acc ds, [])"
  by (induction ds arbitrary: acc) simp_all

lemma foldl_dec:
  "foldl (\<lambda>a c. a * 10 + digit_val c) acc (dec n) = acc * 10 ^ length (dec n) + n"
proof (induction n arbitrary: acc rule: dec.induct)
  case (1 n)
  show ?case
  proof (cases "n < 10")
    case True
    then show ?thesis by (subst (1 2) dec.simps) (simp add: digit_char)
  next
    case False
    then show ?thesis using 1 [OF False]
      by (subst (1 2) dec.simps) (simp add: digit_char algebra_simps)
  qed
qed

lemma isdigit_not_special:
  "isdigit c \<Longrightarrow> \<not> int_space c \<and> \<not> isspace c \<and> c \<noteq> CHR ''+'' \<and> c \<noteq> CHR ''-''
      \<and> c \<noteq> CHR '';'' \<and> c \<noteq> CHR ''='' \<and> c \<noteq> CHR ''L''"
  by (auto simp: isdigit_def int_space_def isspace_def Let_def)

lemma count_all_digits: "\<forall>c\<in>set ds. isdigit c \<Longrightarrow> count_digits ds = length ds"
  by (induction ds) simp_all

lemma py_int_dec:
  "py_int (dec n) = (if length (dec n) \<le> int_max_str_digits then Inr (int n) else Inl ValueError)"
proof -
  obtain c cs where d: "dec n = c # cs"
    using dec_nonempty [of n] by (cases "dec n") auto
  have dig: "isdigit c" "\<forall>x\<in>set cs. isdigit x"
    using dec_digits [of n] d by auto
  have v: "foldl (\<lambda>a c. a * 10 + digit_val c) (digit_val c) cs = n"
    using foldl_dec [of 0 n] d by simp
  show ?thesis
    using isdigit_not_special [OF dig(1)] dig(1) scan_all_digits [OF dig(2), of "digit_val c"] v
      count_all_digits [OF dig(2)]
    by (auto simp: py_int_def d)
qed

text \<open>The numeral of a power of ten: a one and the zeros.\<close>

lemma dec_pow: "dec (10 ^ n) = CHR ''1'' # replicate n CHR ''0''"
proof (induction n)
  case 0
  show ?case by (simp add: dec.simps char_of_eq_iff take_bit_eq_mod)
next
  case (Suc n)
  have "dec (10 ^ Suc n) = dec (10 ^ n) @ [CHR ''0'']"
    by (subst dec.simps) (simp add: char_of_eq_iff take_bit_eq_mod)
  then show ?case
    by (simp add: Suc replicate_append_same)
qed

lemma split_on_no_sep: "sep \<notin> set s \<Longrightarrow> split_on sep s = [s]"
  by (induction s) auto

lemma split_on_append:
  "sep \<notin> set a \<Longrightarrow> split_on sep (a @ sep # b) = a # split_on sep b"
  by (induction a) auto

lemma split1_append: "sep \<notin> set a \<Longrightarrow> split1 sep (a @ sep # b) = [a, b]"
  by (induction a) auto

lemma strip_id: "s \<noteq> [] \<Longrightarrow> \<not> isspace (hd s) \<Longrightarrow> \<not> isspace (last s) \<Longrightarrow> strip s = s"
proof -
  assume a: "s \<noteq> []" "\<not> isspace (hd s)" "\<not> isspace (last s)"
  have 1: "dropWhile isspace s = s" using a by (cases s) auto
  have 2: "dropWhile isspace (rev s) = rev s"
    using a by (cases "rev s") (auto simp: hd_rev [symmetric])
  show ?thesis by (simp add: strip_def 1 2)
qed

lemma rate_of_segment_eq:
  "strip seg = p \<Longrightarrow> startswith (lower p) ''rate='' \<Longrightarrow> split1 CHR ''='' p = [a, v] \<Longrightarrow>
     rate_of_segment seg = (case py_int v of Inr x \<Rightarrow> Some x | Inl _ \<Rightarrow> None)"
  by (simp add: rate_of_segment_def int_after_def index_def)

lemma bits_of_segment_eq:
  "strip seg = p \<Longrightarrow> \<not> startswith (lower p) ''rate='' \<Longrightarrow> startswith p ''audio/L'' \<Longrightarrow>
   split1 CHR ''L'' p = [a, v] \<Longrightarrow>
     bits_of_segment seg = (case py_int v of Inr x \<Rightarrow> Some x | Inl _ \<Rightarrow> None)"
  by (simp add: bits_of_segment_def int_after_def index_def)

lemma strip_ends_digit: "p \<noteq> [] \<Longrightarrow> \<not> isspace (hd p) \<Longrightarrow> strip (p @ dec n) = p @ dec n"
proof -
  assume p: "p \<noteq> []" "\<not> isspace (hd p)"
  have "isdigit (last (dec n))"
    using dec_digits [of n] dec_nonempty [of n] last_in_set by blast
  then have "\<not> isspace (last (p @ dec n))"
    using isdigit_not_special [of "last (dec n)"] dec_nonempty [of n] by simp
  then show ?thesis using p by (intro strip_id) simp_all
qed

lemma bits_segment_wellformed:
  "bits_of_segment (''audio/L'' @ dec b)
     = (if length (dec b) \<le> int_max_str_digits then Some (int b) else None)
   \<and> rate_of_segment (''audio/L'' @ dec b) = None"
proof -
  let ?p = "''audio/L'' @ dec b"
  have s: "strip ?p = ?p"
    by (rule strip_ends_digit) (simp_all add: isspace_def)
  have sp: "split1 CHR ''L'' ?p = [''audio/'', dec b]"
    using split1_append [of "CHR ''L''" "''audio/''" "dec b"] by simp
  have nr: "\<not> startswith (lower ?p) ''rate=''"
    by (simp add: startswith_def lower_def lower_char_def)
  have au: "startswith ?p ''audio/L''"
    by (simp add: startswith_def)
  have "rate_of_segment ?p = None"
    using nr by (simp only: rate_of_segment_def s Let_def if_False)
  then show ?thesis
    using bits_of_segment_eq [OF s nr au sp] by (simp add: py_int_dec)
qed

lemma rate_segment_wellformed:
  "rate_of_segment (''rate='' @ dec r)
     = (if length (dec r) \<le> int_max_str_digits then Some (int r) else None)
   \<and> bits_of_segment (''rate='' @ dec r) = None"
proof -
  let ?p = "''rate='' @ dec r"
  have s: "strip ?p = ?p"
    by (rule strip_ends_digit) (simp_all add: isspace_def)
  have sp: "split1 CHR ''='' ?p = [''rate'', dec r]"
    using split1_append [of "CHR ''=''" "''rate''" "dec r"] by simp
  have ir: "startswith (lower ?p) ''rate=''"
    by (simp add: startswith_def lower_def lower_char_def)
  have "bits_of_segment ?p = None"
    using ir by (simp only: bits_of_segment_def s Let_def simp_thms if_False)
  then show ?thesis
    using rate_of_segment_eq [OF s ir sp] by (simp add: py_int_dec)
qed

lemma split_wellformed:
  "split_on CHR '';'' ((''audio/L'' @ dec b) @ CHR '';'' # (''rate='' @ dec r))
     = [''audio/L'' @ dec b, ''rate='' @ dec r]"
proof -
  have a: "CHR '';'' \<notin> set (''audio/L'' @ dec b)"
    using dec_digits [of b] isdigit_not_special by auto
  have c: "CHR '';'' \<notin> set (''rate='' @ dec r)"
    using dec_digits [of r] isdigit_not_special by auto
  show ?thesis
    by (simp only: split_on_append [OF a] split_on_no_sep [OF c])
qed

lemma parse_wellformed:
  "parse_audio_mime_type (''audio/L'' @ dec b @ '';rate='' @ dec r)
     = \<lparr>bits_per_sample = (if length (dec b) \<le> int_max_str_digits then int b else 16),
        rate = (if length (dec r) \<le> int_max_str_digits then int r else 24000)\<rparr>"
proof -
  have e: "''audio/L'' @ dec b @ '';rate='' @ dec r
             = (''audio/L'' @ dec b) @ CHR '';'' # (''rate='' @ dec r)"
    by simp
  have "foldl parse_param \<lparr>bits_per_sample = 16, rate = 24000\<rparr>
          [''audio/L'' @ dec b, ''rate='' @ dec r]
        = \<lparr>bits_per_sample = (if length (dec b) \<le> int_max_str_digits then int b else 16),
           rate = (if length (dec r) \<le> int_max_str_digits then int r else 24000)\<rparr>"
    using bits_segment_wellformed [of b] rate_segment_wellformed [of r]
    by (simp add: parse_param_eq)
  then show ?thesis
    by (simp only: parse_audio_mime_type_def e split_wellformed)
qed

text \<open>The definitions that evaluate the parser on a given string.\<close>

lemmas parse_eval = parse_audio_mime_type_def parse_param_def strip_def isspace_def lower_def
  lower_char_def startswith_def int_after_def index_def py_int_def int_space_def isdigit_def
  digit_val_def rate_of_segment_def bits_of_segment_def int_max_str_digits_def

lemma parse_rate_too_long:
  assumes "length (dec b) \<le> int_max_str_digits" and "int_max_str_digits < length (dec r)"
  shows "parse_audio_mime_type (''audio/L'' @ dec b @ '';rate='' @ dec r)
     = \<lparr>bits_per_sample = int b, rate = 24000\<rparr>"
  using assms by (simp only: parse_wellformed if_True if_False not_le [symmetric])

lemma dec_examples: "dec 16 = ''16''" "dec 24000 = ''24000''"
  by (simp_all add: dec.simps char_of_eq_iff take_bit_eq_mod)

text \<open>
  Claim C2, as stated, fails for long numerals: \<open>int()\<close> raises ValueError on more than
  4300 digits, the parser catches it and keeps the default. On \<open>audio/L16;rate=\<close>
  followed by the numeral of \<open>10^4300\<close>, a one and 4300 zeros, the rate is 24000.
\<close>

theorem parse_digit_limit_counterexample:
  "dec (10 ^ 4300) = CHR ''1'' # replicate 4300 CHR ''0''
   \<and> length (dec (10 ^ 4300)) = 4301
   \<and> parse_audio_mime_type (''audio/L16;rate='' @ dec (10 ^ 4300))
        = \<lparr>bits_per_sample = 16, rate = 24000\<rparr>"
proof -
  have l: "length (dec (10 ^ 4300)) = 4301"
    unfolding dec_pow by simp
  have long: "int_max_str_digits < length (dec (10 ^ 4300))"
    unfolding l int_max_str_digits_def by simp
  have short: "length (dec 16) \<le> int_max_str_digits"
    by (simp add: dec_examples int_max_str_digits_def)
  have e: "''audio/L16;rate='' @ x = ''audio/L'' @ dec 16 @ '';rate='' @ x" for x
    by (simp add: dec_examples)
  have i: "int 16 = 16"
    by simp
  have "parse_audio_mime_type (''audio/L'' @ dec 16 @ '';rate='' @ dec (10 ^ 4300))
        = \<lparr>bits_per_sample = int 16, rate = 24000\<rparr>"
    using short long by (rule parse_rate_too_long)
  then show ?thesis
    unfolding e i using l dec_pow [of 4300] by blast
qed

text \<open>
  Claim C2, amended. The parser is a total function: every exception of \<open>int()\<close> and of
  the indexing is caught, so it returns a descriptor on every string. On
  \<open>audio/L<b>;rate=<r>\<close>, with \<open>b\<close> and \<open>r\<close> written in decimal with at most 4300
  digits each, it returns exactly \<open>b\<close> and \<open>r\<close>. A field for which no segment yields an
  integer keeps its default, 24000 Hz or 16 bits; so it is for \<open>audio/ogg\<close>, the empty
  string and \<open>rate=abc\<close>.
\<close>

theorem parse_audio_mime_type_total:
  "(length (dec b) \<le> int_max_str_digits \<and> length (dec r) \<le> int_max_str_digits \<longrightarrow>
      parse_audio_mime_type (''audio/L'' @ dec b @ '';rate='' @ dec r)
        = \<lparr>bits_per_sample = int b, rate = int r\<rparr>)
   \<and> ((\<forall>seg\<in>set (split_on CHR '';'' m). rate_of_segment seg = None)
        \<longrightarrow> rate (parse_audio_mime_type m) = 24000)
   \<and> ((\<forall>seg\<in>set (split_on CHR '';'' m). bits_of_segment seg = None)
        \<longrightarrow> bits_per_sample (parse_audio_mime_type m) = 16)
   \<and> parse_audio_mime_type ''audio/ogg'' = \<lparr>bits_per_sample = 16, rate = 24000\<rparr>
   \<and> parse_audio_mime_type '''' = \<lparr>bits_per_sample = 16, rate = 24000\<rparr>
   \<and> parse_audio_mime_type ''rate=abc'' = \<lparr>bits_per_sample = 16, rate = 24000\<rparr>"
proof (intro conjI impI)
  show "parse_audio_mime_type (''audio/L'' @ dec b @ '';rate='' @ dec r)
       = \<lparr>bits_per_sample = int b, rate = int r\<rparr>"
    if "length (dec b) \<le> int_max_str_digits \<and> length (dec r) \<le> int_max_str_digits"
    using that by (simp only: parse_wellformed if_True)
  show "rate (parse_audio_mime_type m) = 24000"
    if "\<forall>seg\<in>set (split_on CHR '';'' m). rate_of_segment seg = None"
    using foldl_rate_default [OF that] by (simp add: parse_audio_mime_type_def)
  show "bits_per_sample (parse_audio_mime_type m) = 16"
    if "\<forall>seg\<in>set (split_on CHR '';'' m). bits_of_segment seg = None"
    using foldl_bits_default [OF that] by (simp add: parse_audio_mime_type_def)
  show "parse_audio_mime_type ''audio/ogg'' = \<lparr>bits_per_sample = 16, rate = 24000\<rparr>"
    by (simp add: parse_eval)
  show "parse_audio_mime_type '''' = \<lparr>bits_per_sample = 16, rate = 24000\<rparr>"
    by (simp add: parse_eval)
  show "parse_audio_mime_type ''rate=abc'' = \<lparr>bits_per_sample = 16, rate = 24000\<rparr>"
    by (simp add: parse_eval)
qed

theorem parse_audio_mime_type_total_witness:
  "length (dec 16) \<le> int_max_str_digits \<and> length (dec 24000) \<le> int_max_str_digits
   \<and> parse_audio_mime_type ''audio/L16;rate=24000'' = \<lparr>bits_per_sample = 16, rate = 24000\<rparr>
   \<and> list_all (\<lambda>seg. rate_of_segment seg = None) (split_on CHR '';'' ''audio/L8'')
   \<and> rate (parse_audio_mime_type ''audio/L8'') = 24000
   \<and> list_all (\<lambda>seg. bits_of_segment seg = None) (split_on CHR '';'' ''rate=abc'')
   \<and> bits_per_sample (parse_audio_mime_type ''rate=abc'') = 16"
proof -
  have d: "length (dec 16) \<le> int_max_str_digits" "length (dec 24000) \<le> int_max_str_digits"
    by (simp_all add: dec_examples int_max_str_digits_def)
  have h1: "\<forall>seg\<in>set (split_on CHR '';'' ''audio/L8''). rate_of_segment seg = None"
    by (simp add: parse_eval)
  have h2: "\<forall>seg\<in>set (split_on CHR '';'' ''rate=abc''). bits_of_segment seg = None"
    by (simp add: parse_eval)
  show ?thesis
    using parse_audio_mime_type_total [of 16 24000 "''audio/L8''"]
      parse_audio_mime_type_total [of 16 24000 "''rate=abc''"] d h1 h2
    by (simp add: dec_examples list_all_iff)
qed

text \<open>
  Claim C8, as stated, fails: the parser checks neither value. On \<open>audio/L7;rate=0\<close>
  it returns 7 bits, which is no multiple of 8, and the rate 0.
\<close>

theorem parse_invariant_counterexample:
  "parse_audio_mime_type ''audio/L7;rate=0'' = \<lparr>bits_per_sample = 7, rate = 0\<rparr>
   \<and> \<not> descriptor_ok (parse_audio_mime_type ''audio/L7;rate=0'')"
proof -
  have "parse_audio_mime_type ''audio/L7;rate=0'' = \<lparr>bits_per_sample = 7, rate = 0\<rparr>"
    by (simp add: parse_eval)
  then show ?thesis by (simp add: descriptor_ok_def)
qed

text \<open>
  Claim C8, amended. The descriptor satisfies the invariant whenever every integer that a
  segment yields for the bits is a positive multiple of 8 and every integer that a segment
  yields for the rate is positive; with no such segment the defaults stand.
\<close>

theorem parse_invariant_amended:
  assumes "\<forall>seg\<in>set (split_on CHR '';'' m).
             (case bits_of_segment seg of None \<Rightarrow> True | Some v \<Rightarrow> 0 < v \<and> v mod 8 = 0)"
    and "\<forall>seg\<in>set (split_on CHR '';'' m).
             (case rate_of_segment seg of None \<Rightarrow> True | Some v \<Rightarrow> 0 < v)"
  shows "descriptor_ok (parse_audio_mime_type m)"
  unfolding parse_audio_mime_type_def
  by (rule foldl_descriptor_ok [OF _ assms]) (simp add: descriptor_ok_def)

theorem parse_invariant_amended_witness:
  "list_all (\<lambda>seg. case bits_of_segment seg of None \<Rightarrow> True | Some v \<Rightarrow> 0 < v \<and> v mod 8 = 0)
       (split_on CHR '';'' ''audio/L24;rate=48000'')
   \<and> list_all (\<lambda>seg. case rate_of_segment seg of None \<Rightarrow> True | Some v \<Rightarrow> 0 < v)
       (split_on CHR '';'' ''audio/L24;rate=48000'')
   \<and> descriptor_ok (parse_audio_mime_type ''audio/L24;rate=48000'')
   \<and> parse_audio_mime_type ''audio/L24;rate=48000'' = \<lparr>bits_per_sample = 24, rate = 48000\<rparr>"
proof -
  have h1: "\<forall>seg\<in>set (split_on CHR '';'' ''audio/L24;rate=48000'').
       (case bits_of_segment seg of None \<Rightarrow> True | Some v \<Rightarrow> 0 < v \<and> v mod 8 = 0)"
    by (simp add: parse_eval)
  have h2: "\<forall>seg\<in>set (split_on CHR '';'' ''audio/L24;rate=48000'').
       (case rate_of_segment seg of None \<Rightarrow> True | Some v \<Rightarrow> 0 < v)"
    by (simp add: parse_eval)
  have v: "parse_audio_mime_type ''audio/L24;rate=48000'' = \<lparr>bits_per_sample = 24, rate = 48000\<rparr>"
    by (simp add: parse_eval)
  show ?thesis
    using parse_invariant_amended [OF h1 h2] h1 h2 v by (simp add: list_all_iff)
qed

section \<open>Properties of the container synthesizer\<close>

lemma length_le_bytes: "length (le_bytes n v) = n"
  by (induction n arbitrary: v) simp_all

lemma length_ascii: "length (ascii s) = length s"
  by (simp add: ascii_def)

lemma unat_byte_of_int: "unat (word_of_int v :: byte) = nat (v mod 256)"
  by (simp add: unat_eq_nat_uint uint_word_of_int take_bit_eq_mod)

lemma le_value_le_bytes: "0 \<le> v \<Longrightarrow> v < 256 ^ n \<Longrightarrow> le_value (le_bytes n v) = nat v"
proof (induction n arbitrary: v)
  case 0
  then show ?case by simp
next
  case (Suc n)
  have "v div 256 < 256 ^ n" using Suc.prems by simp
  moreover have "0 \<le> v div 256" using Suc.prems by simp
  ultimately have "le_value (le_bytes n (v div 256)) = nat (v div 256)"
    by (rule Suc.IH [rotated])
  moreover have "nat (v mod 256) + 256 * nat (v div 256) = nat v"
    using Suc.prems(1) by (simp add: nat_mod_distrib nat_div_distrib)
  ultimately show ?case by (simp add: unat_byte_of_int)
qed

lemma slice_mid:
  "length a = i \<Longrightarrow> length b = j - i \<Longrightarrow> slice i j (a @ b @ c) = b"
  by (simp add: slice_def)


lemma pack_I_ok: "0 \<le> v \<Longrightarrow> v < 2 ^ 32 \<Longrightarrow> pack_I v = Inr (le_bytes 4 v)"
  by (simp add: pack_I_def)

lemma pack_H_ok: "0 \<le> v \<Longrightarrow> v < 2 ^ 16 \<Longrightarrow> pack_H v = Inr (le_bytes 2 v)"
  by (simp add: pack_H_def)

lemma le_value4: "0 \<le> v \<Longrightarrow> v < 2 ^ 32 \<Longrightarrow> le_value (le_bytes 4 v) = nat v"
  using le_value_le_bytes [of v 4] by simp

lemma le_value2: "0 \<le> v \<Longrightarrow> v < 2 ^ 16 \<Longrightarrow> le_value (le_bytes 2 v) = nat v"
  using le_value_le_bytes [of v 2] by simp

text \<open>The header that the thirteen fields make, and what reading it back gives.\<close>

lemma read_header_fields:
  assumes len: "length t1 = 4" "length f2 = 4" "length t3 = 4" "length t4 = 4" "length f5 = 4"
    "length f6 = 2" "length f7 = 2" "length f8 = 4" "length f9 = 4" "length f10 = 2"
    "length f11 = 2" "length t12 = 4" "length f13 = 4"
  shows "read_header (t1 @ f2 @ t3 @ t4 @ f5 @ f6 @ f7 @ f8 @ f9 @ f10 @ f11 @ t12 @ f13 @ p) =
     \<lparr>riff_tag = t1, riff_size = le_value f2, wave_tag = t3, fmt_tag = t4,
      fmt_size = le_value f5, format_code = le_value f6, channels = le_value f7,
      sample_rate = le_value f8, byte_rate = le_value f9, block_align = le_value f10,
      bits = le_value f11, data_tag = t12, data_size = le_value f13\<rparr>"
  using len by (simp add: read_header_def slice_def)

lemma wav_of_params_ok:
  assumes "fields_fit P d"
  shows "wav_of_params P d =
     Inr (ascii ''RIFF'' @ le_bytes 4 (36 + int (length P)) @ ascii ''WAVE'' @ ascii ''fmt ''
          @ le_bytes 4 16 @ le_bytes 2 1 @ le_bytes 2 1 @ le_bytes 4 (rate d)
          @ le_bytes 4 (rate d * (bits_per_sample d div 8)) @ le_bytes 2 (bits_per_sample d div 8)
          @ le_bytes 2 (bits_per_sample d) @ ascii ''data'' @ le_bytes 4 (int (length P)) @ P)"
proof -
  have r: "0 \<le> rate d" "rate d < 2 ^ 32" and b: "0 \<le> bits_per_sample d" "bits_per_sample d < 2 ^ 16"
    and br: "rate d * (bits_per_sample d div 8) < 2 ^ 32" and l: "36 + int (length P) < 2 ^ 32"
    using assms by (simp_all add: fields_fit_def)
  have ba: "0 \<le> bits_per_sample d div 8" "bits_per_sample d div 8 < 2 ^ 16"
    using b by simp_all
  have br0: "0 \<le> rate d * (bits_per_sample d div 8)"
    using r(1) ba(1) by simp
  have p: "pack_I (36 + int (length P)) = Inr (le_bytes 4 (36 + int (length P)))"
    "pack_I 16 = Inr (le_bytes 4 16)" "pack_H 1 = Inr (le_bytes 2 1)"
    "pack_I (rate d) = Inr (le_bytes 4 (rate d))"
    "pack_I (rate d * (bits_per_sample d div 8)) = Inr (le_bytes 4 (rate d * (bits_per_sample d div 8)))"
    "pack_H (bits_per_sample d div 8) = Inr (le_bytes 2 (bits_per_sample d div 8))"
    "pack_H (bits_per_sample d) = Inr (le_bytes 2 (bits_per_sample d))"
    "pack_I (int (length P)) = Inr (le_bytes 4 (int (length P)))"
    using r b br l ba br0 by (simp_all add: pack_I_ok pack_H_ok)
  show ?thesis
    by (simp add: wav_of_params_def Let_def p del: le_bytes.simps)
qed

lemma wav_of_params_fails:
  assumes "\<not> fields_fit P d"
  shows "\<exists>e. wav_of_params P d = Inl e"
proof -
  have "\<not> (0 \<le> rate d \<and> rate d < 2 ^ 32) \<or> \<not> (0 \<le> bits_per_sample d \<and> bits_per_sample d < 2 ^ 16)
      \<or> \<not> rate d * (bits_per_sample d div 8) < 2 ^ 32 \<or> \<not> 36 + int (length P) < 2 ^ 32"
    using assms by (auto simp: fields_fit_def)
  then show ?thesis
    by (auto simp: wav_of_params_def Let_def pack_I_def pack_H_def split: sum.splits)
qed

lemma wav_of_params_header:
  assumes "fields_fit P d"
  shows "\<exists>w. wav_of_params P d = Inr w \<and> length w = 44 + length P
           \<and> drop 44 w = P
           \<and> read_header w =
               \<lparr>riff_tag = ascii ''RIFF'', riff_size = 36 + length P, wave_tag = ascii ''WAVE'',
                fmt_tag = ascii ''fmt '', fmt_size = 16, format_code = 1, channels = 1,
                sample_rate = nat (rate d),
                byte_rate = nat (rate d * (bits_per_sample d div 8)),
                block_align = nat (bits_per_sample d div 8),
                bits = nat (bits_per_sample d), data_tag = ascii ''data'',
                data_size = length P\<rparr>"
proof -
  have r: "0 \<le> rate d" "rate d < 2 ^ 32" and b: "0 \<le> bits_per_sample d" "bits_per_sample d < 2 ^ 16"
    and br: "rate d * (bits_per_sample d div 8) < 2 ^ 32" and l: "36 + int (length P) < 2 ^ 32"
    using assms by (simp_all add: fields_fit_def)
  have ba: "0 \<le> bits_per_sample d div 8" "bits_per_sample d div 8 < 2 ^ 16"
    using b by simp_all
  have br0: "0 \<le> rate d * (bits_per_sample d div 8)"
    using r(1) ba(1) by simp
  have v: "le_value (le_bytes 4 (36 + int (length P))) = 36 + length P"
    "le_value (le_bytes 4 16) = 16" "le_value (le_bytes 2 1) = 1"
    "le_value (le_bytes 4 (rate d)) = nat (rate d)"
    "le_value (le_bytes 4 (rate d * (bits_per_sample d div 8))) = nat (rate d * (bits_per_sample d div 8))"
    "le_value (le_bytes 2 (bits_per_sample d div 8)) = nat (bits_per_sample d div 8)"
    "le_value (le_bytes 2 (bits_per_sample d)) = nat (bits_per_sample d)"
    "le_value (le_bytes 4 (int (length P))) = length P"
    using r b br l ba br0 by (simp_all add: le_value4 le_value2 del: le_bytes.simps)
  let ?h = "ascii ''RIFF'' @ le_bytes 4 (36 + int (length P)) @ ascii ''WAVE'' @ ascii ''fmt ''
          @ le_bytes 4 16 @ le_bytes 2 1 @ le_bytes 2 1 @ le_bytes 4 (rate d)
          @ le_bytes 4 (rate d * (bits_per_sample d div 8)) @ le_bytes 2 (bits_per_sample d div 8)
          @ le_bytes 2 (bits_per_sample d) @ ascii ''data'' @ le_bytes 4 (int (length P)) @ P"
  have h: "read_header ?h =
     \<lparr>riff_tag = ascii ''RIFF'', riff_size = le_value (le_bytes 4 (36 + int (length P))),
      wave_tag = ascii ''WAVE'', fmt_tag = ascii ''fmt '',
      fmt_size = le_value (le_bytes 4 16), format_code = le_value (le_bytes 2 1),
      channels = le_value (le_bytes 2 1), sample_rate = le_value (le_bytes 4 (rate d)),
      byte_rate = le_value (le_bytes 4 (rate d * (bits_per_sample d div 8))),
      block_align = le_value (le_bytes 2 (bits_per_sample d div 8)),
      bits = le_value (le_bytes 2 (bits_per_sample d)), data_tag = ascii ''data'',
      data_size = le_value (le_bytes 4 (int (length P)))\<rparr>"
    by (rule read_header_fields) (simp_all add: length_le_bytes length_ascii del: le_bytes.simps)
  have n: "length ?h = 44 + length P" "drop 44 ?h = P"
    by (simp_all add: length_le_bytes length_ascii del: le_bytes.simps)
  from wav_of_params_ok [OF assms] n h [unfolded v] show ?thesis
    by blast
qed

text \<open>
  Claim C1, as stated, fails: \<open>struct.pack\<close> raises when a field does not fit its
  width. A descriptor with 16 bits and the rate 4294967296 satisfies the descriptor
  invariant, and packing it raises \<open>struct.error\<close> at the sample rate.
\<close>

theorem wav_of_params_counterexample:
  "wav_of_params [] \<lparr>bits_per_sample = 16, rate = 4294967296\<rparr>
     = Inl (StructError CHR ''I'' 4294967296)
   \<and> descriptor_ok \<lparr>bits_per_sample = 16, rate = 4294967296\<rparr>"
  by (simp add: wav_of_params_def pack_I_def pack_H_def descriptor_ok_def)

text \<open>
  Claim C1, amended. For every payload and every descriptor whose header fields fit
  their widths (rate below \<open>2^32\<close>, bits below \<open>2^16\<close>, both not negative, byte rate and
  \<open>36 + len(P)\<close> below \<open>2^32\<close>), the packing step returns 44 header bytes followed by
  the payload unchanged. Read back little-endian, the header holds \<open>RIFF\<close>, the chunk
  size \<open>36 + len(P)\<close>, \<open>WAVE\<close>, \<open>fmt \<close>, the format-chunk size 16, the PCM code 1, one
  channel, the sample rate, the byte rate, the block align, the bits per sample, \<open>data\<close>
  and the data size \<open>len(P)\<close>, in this order.
\<close>

theorem wav_of_params_container:
  assumes "fields_fit P d"
  shows "\<exists>w. wav_of_params P d = Inr w \<and> length w = 44 + length P
           \<and> drop 44 w = P
           \<and> take 4 w = ascii ''RIFF'' \<and> slice 8 12 w = ascii ''WAVE''
           \<and> le_value (slice 4 8 w) = 36 + length P
           \<and> le_value (slice 40 44 w) = length P
           \<and> read_header w =
               \<lparr>riff_tag = ascii ''RIFF'', riff_size = 36 + length P, wave_tag = ascii ''WAVE'',
                fmt_tag = ascii ''fmt '', fmt_size = 16, format_code = 1, channels = 1,
                sample_rate = nat (rate d),
                byte_rate = nat (rate d * (bits_per_sample d div 8)),
                block_align = nat (bits_per_sample d div 8),
                bits = nat (bits_per_sample d), data_tag = ascii ''data'',
                data_size = length P\<rparr>"
proof -
  from wav_of_params_header [OF assms] obtain w where
    w: "wav_of_params P d = Inr w" "length w = 44 + length P" "drop 44 w = P"
    and h: "read_header w =
               \<lparr>riff_tag = ascii ''RIFF'', riff_size = 36 + length P, wave_tag = ascii ''WAVE'',
                fmt_tag = ascii ''fmt '', fmt_size = 16, format_code = 1, channels = 1,
                sample_rate = nat (rate d),
                byte_rate = nat (rate d * (bits_per_sample d div 8)),
                block_align = nat (bits_per_sample d div 8),
                bits = nat (bits_per_sample d), data_tag = ascii ''data'',
                data_size = length P\<rparr>"
    by blast
  have "riff_tag (read_header w) = ascii ''RIFF''" "wave_tag (read_header w) = ascii ''WAVE''"
    "riff_size (read_header w) = 36 + length P" "data_size (read_header w) = length P"
    by (simp_all add: h)
  then have "take 4 w = ascii ''RIFF''" "slice 8 12 w = ascii ''WAVE''"
    "le_value (slice 4 8 w) = 36 + length P" "le_value (slice 40 44 w) = length P"
    by (simp_all add: read_header_def slice_def)
  with w h show ?thesis by blast
qed

theorem wav_of_params_container_witness:
  "fields_fit [1, 2, 3] \<lparr>bits_per_sample = 16, rate = 24000\<rparr>
   \<and> (\<exists>w. wav_of_params [1, 2, 3] \<lparr>bits_per_sample = 16, rate = 24000\<rparr> = Inr w
          \<and> length w = 47 \<and> drop 44 w = [1, 2, 3] \<and> take 4 w = ascii ''RIFF''
          \<and> le_value (slice 4 8 w) = 39 \<and> le_value (slice 40 44 w) = 3
          \<and> sample_rate (read_header w) = 24000 \<and> byte_rate (read_header w) = 48000
          \<and> block_align (read_header w) = 2 \<and> bits (read_header w) = 16)"
proof -
  have f: "fields_fit [1, 2, 3] \<lparr>bits_per_sample = 16, rate = 24000\<rparr>"
    by (simp add: fields_fit_def)
  from wav_of_params_container [OF f] obtain w where
    "wav_of_params [1, 2, 3] \<lparr>bits_per_sample = 16, rate = 24000\<rparr> = Inr w"
    "length w = 44 + length [1 :: byte, 2, 3]" "drop 44 w = [1, 2, 3]"
    "take 4 w = ascii ''RIFF''"
    "le_value (slice 4 8 w) = 36 + length [1 :: byte, 2, 3]"
    "le_value (slice 40 44 w) = length [1 :: byte, 2, 3]"
    "read_header w =
       \<lparr>riff_tag = ascii ''RIFF'', riff_size = 36 + length [1 :: byte, 2, 3],
        wave_tag = ascii ''WAVE'', fmt_tag = ascii ''fmt '', fmt_size = 16, format_code = 1,
        channels = 1, sample_rate = nat (rate \<lparr>bits_per_sample = 16, rate = 24000\<rparr>),
        byte_rate = nat (rate \<lparr>bits_per_sample = 16, rate = 24000\<rparr>
                         * (bits_per_sample \<lparr>bits_per_sample = 16, rate = 24000\<rparr> div 8)),
        block_align = nat (bits_per_sample \<lparr>bits_per_sample = 16, rate = 24000\<rparr> div 8),
        bits = nat (bits_per_sample \<lparr>bits_per_sample = 16, rate = 24000\<rparr>),
        data_tag = ascii ''data'', data_size = length [1 :: byte, 2, 3]\<rparr>"
    by blast
  then show ?thesis using f by (intro conjI exI [of _ w]) simp_all
qed

section \<open>Properties of the speech pipeline\<close>

text \<open>The silent container that the \<open>wave\<close> writer produces.\<close>

lemma concat_replicate_pair: "concat (replicate n [a, a]) = replicate (2 * n) a"
  by (induction n) simp_all

lemma silence_zeros: "silence = replicate 48000 0"
  by (simp add: silence_def concat_replicate_pair)

lemma length_silence: "length silence = 48000"
  by (simp only: silence_zeros length_replicate)

lemma wave_file_pcm16:
  "wave_file 1 2 24000 frames = wav_of_params frames \<lparr>bits_per_sample = 16, rate = 24000\<rparr>"
  by (simp add: wave_file_def wav_of_params_def Let_def del: pack_seq.simps)

lemma fields_fit_silence: "fields_fit silence \<lparr>bits_per_sample = 16, rate = 24000\<rparr>"
  by (simp add: fields_fit_def length_silence)


lemma minimal_wav_container:
  "\<exists>w. minimal_wav = Inr w \<and> length w = 48044 \<and> drop 44 w = replicate 48000 0
     \<and> read_header w =
          \<lparr>riff_tag = ascii ''RIFF'', riff_size = 48036, wave_tag = ascii ''WAVE'',
           fmt_tag = ascii ''fmt '', fmt_size = 16, format_code = 1, channels = 1,
           sample_rate = 24000, byte_rate = 48000, block_align = 2, bits = 16,
           data_tag = ascii ''data'', data_size = 48000\<rparr>"
proof -
  from wav_of_params_header [OF fields_fit_silence] obtain w where
    w: "wav_of_params silence \<lparr>bits_per_sample = 16, rate = 24000\<rparr> = Inr w"
      "length w = 44 + length silence" "drop 44 w = silence"
      "read_header w =
         \<lparr>riff_tag = ascii ''RIFF'', riff_size = 36 + length silence,
          wave_tag = ascii ''WAVE'', fmt_tag = ascii ''fmt '', fmt_size = 16,
          format_code = 1, channels = 1,
          sample_rate = nat (rate \<lparr>bits_per_sample = 16, rate = 24000\<rparr>),
          byte_rate = nat (rate \<lparr>bits_per_sample = 16, rate = 24000\<rparr>
                           * (bits_per_sample \<lparr>bits_per_sample = 16, rate = 24000\<rparr> div 8)),
          block_align = nat (bits_per_sample \<lparr>bits_per_sample = 16, rate = 24000\<rparr> div 8),
          bits = nat (bits_per_sample \<lparr>bits_per_sample = 16, rate = 24000\<rparr>),
          data_tag = ascii ''data'', data_size = length silence\<rparr>"
    by blast
  have "minimal_wav = Inr w"
    by (simp only: minimal_wav_def wave_file_pcm16 w(1))
  moreover have "length w = 48044" using w(2) by (simp add: length_silence)
  moreover have "drop 44 w = replicate 48000 0" using w(3) by (simp only: silence_zeros)
  moreover have "read_header w =
          \<lparr>riff_tag = ascii ''RIFF'', riff_size = 48036, wave_tag = ascii ''WAVE'',
           fmt_tag = ascii ''fmt '', fmt_size = 16, format_code = 1, channels = 1,
           sample_rate = 24000, byte_rate = 48000, block_align = 2, bits = 16,
           data_tag = ascii ''data'', data_size = 48000\<rparr>"
    using w(4) by (simp add: length_silence)
  ultimately show ?thesis by blast
qed

lemma wav_of_params_length:
  assumes "wav_of_params P d = Inr w"
  shows "fields_fit P d \<and> length w = 44 + length P \<and> drop 44 w = P"
proof -
  have f: "fields_fit P d"
  proof (rule ccontr)
    assume "\<not> fields_fit P d"
    from wav_of_params_fails [OF this] assms show False by auto
  qed
  from wav_of_params_header [OF f] obtain w' where
    "wav_of_params P d = Inr w'" "length w' = 44 + length P" "drop 44 w' = P"
    by blast
  with assms f show ?thesis by simp
qed




lemma handler_quota: "is_quota_error (str_exn ev e) \<Longrightarrow> handler ev e = []"
  by (simp add: handler_def)

lemma handler_silent:
  assumes "\<not> is_quota_error (str_exn ev e)" and m: "minimal_wav = Inr w"
  shows "handler ev e = w"
  using assms(1) unfolding handler_def m by simp

lemma generate_of_exception:
  "provider ev t = (chunks, failure) \<Longrightarrow> stream_loop chunks failure initial_state = Inl e \<Longrightarrow>
     generate_speech_with_gemini ev t = handler ev e"
  by (simp add: generate_speech_with_gemini_def try_block_def)

lemma generate_of_empty:
  assumes "provider ev t = (chunks, failure)" "stream_loop chunks failure initial_state = Inr st"
    "audio_buffer st = []" and m: "minimal_wav = Inr w"
  shows "generate_speech_with_gemini ev t = w"
proof -
  have "try_block ev t = minimal_wav"
    using assms(1-3) by (simp add: try_block_def)
  then show ?thesis
    unfolding generate_speech_with_gemini_def m by simp
qed

lemma try_block_payload:
  "provider ev t = (chunks, failure) \<Longrightarrow> stream_loop chunks failure initial_state = Inr st \<Longrightarrow>
   audio_buffer st \<noteq> [] \<Longrightarrow>
     try_block ev t =
       (case stream_mime st of
          None \<Rightarrow> Inr (audio_buffer st)
        | Some m \<Rightarrow>
            if m \<noteq> [] \<and> guess_extension ev m \<noteq> Some ''.wav''
            then convert_to_wav (audio_buffer st) m
            else Inr (audio_buffer st))"
  by (auto simp: try_block_def Let_def split: option.splits)

lemma all_space_strip: "\<forall>c\<in>set s. isspace c \<Longrightarrow> strip s = []"
proof -
  assume "\<forall>c\<in>set s. isspace c"
  then have h: "dropWhile isspace s = []" by simp
  show ?thesis by (simp only: strip_def h rev.simps dropWhile.simps)
qed

lemma strip_Nil: "strip [] = []"
  by (simp add: strip_def)

text \<open>The definitions that evaluate the loop and the quota test on given inputs.\<close>

lemmas chunk_eval = process_chunk_def audio_chunk_def text_chunk_def empty_chunk_def
  untyped_chunk_def initial_state_def payload_of_def first_part_def indexable_def
  List.map_filter_simps

lemmas quota_eval = is_quota_error_def startswith_def lower_def lower_char_def char_of_eq_iff
  take_bit_eq_mod




text \<open>
  Claim C3. When the stream ends without an exception and the buffer is empty, the
  function returns the silent container: 44 header bytes (PCM, one channel, 24000 Hz,
  16 bits, byte rate 48000) followed by 48000 zero bytes, one second of silence, 44 + 48000
  bytes in all. When the request or the loop raises an exception whose text does not match
  the quota test, the handler returns the same bytes.
\<close>

theorem silent_fallback:
  assumes "provider ev text_in = (chunks, failure)"
  shows "\<exists>w. minimal_wav = Inr w \<and> length w = 44 + 48000 \<and> drop 44 w = replicate 48000 0
     \<and> read_header w =
          \<lparr>riff_tag = ascii ''RIFF'', riff_size = 48036, wave_tag = ascii ''WAVE'',
           fmt_tag = ascii ''fmt '', fmt_size = 16, format_code = 1, channels = 1,
           sample_rate = 24000, byte_rate = 48000, block_align = 2, bits = 16,
           data_tag = ascii ''data'', data_size = 48000\<rparr>
     \<and> (\<forall>st. stream_loop chunks failure initial_state = Inr st \<longrightarrow> audio_buffer st = []
            \<longrightarrow> generate_speech_with_gemini ev text_in = w)
     \<and> (\<forall>e. stream_loop chunks failure initial_state = Inl e
            \<longrightarrow> \<not> is_quota_error (str_exn ev e)
            \<longrightarrow> generate_speech_with_gemini ev text_in = w)"
proof -
  from minimal_wav_container obtain w where
    w: "minimal_wav = Inr w" "length w = 48044" "drop 44 w = replicate 48000 0"
      "read_header w =
          \<lparr>riff_tag = ascii ''RIFF'', riff_size = 48036, wave_tag = ascii ''WAVE'',
           fmt_tag = ascii ''fmt '', fmt_size = 16, format_code = 1, channels = 1,
           sample_rate = 24000, byte_rate = 48000, block_align = 2, bits = 16,
           data_tag = ascii ''data'', data_size = 48000\<rparr>"
    by blast
  have a: "generate_speech_with_gemini ev text_in = w"
    if "stream_loop chunks failure initial_state = Inr st" "audio_buffer st = []" for st
    using generate_of_empty [OF assms that w(1)] .
  have b: "generate_speech_with_gemini ev text_in = w"
    if "stream_loop chunks failure initial_state = Inl e" "\<not> is_quota_error (str_exn ev e)" for e
    using generate_of_exception [OF assms that(1)] handler_silent [OF that(2) w(1)] by simp
  have l: "length w = 44 + 48000" using w(2) by simp
  from w(1) l w(3,4) a b show ?thesis by blast
qed

theorem silent_fallback_witness:
  "stream_loop [text_chunk ''note''] None initial_state = Inr initial_state
   \<and> audio_buffer initial_state = []
   \<and> stream_loop [] (Some ''connection reset'') initial_state
        = Inl (UpstreamError ''connection reset'')
   \<and> \<not> is_quota_error ''connection reset''
   \<and> generate_speech_with_gemini (sample_env [text_chunk ''note''] None []) ''Hello''
        = generate_speech_with_gemini (sample_env [] (Some ''connection reset'') []) ''Hello''
   \<and> length (generate_speech_with_gemini (sample_env [text_chunk ''note''] None []) ''Hello'')
        = 48044"
proof -
  let ?a = "sample_env [text_chunk ''note''] None []"
  let ?b = "sample_env [] (Some ''connection reset'') []"
  have l: "stream_loop [text_chunk ''note''] None initial_state = Inr initial_state"
    "audio_buffer initial_state = []"
    "stream_loop [] (Some ''connection reset'') initial_state
        = Inl (UpstreamError ''connection reset'')"
    by (simp_all add: chunk_eval)
  have q: "\<not> is_quota_error ''connection reset''"
    by (simp add: quota_eval)
  have pa: "provider ?a ''Hello'' = ([text_chunk ''note''], None)"
    and pb: "provider ?b ''Hello'' = ([], Some ''connection reset'')"
    by (simp_all add: sample_env_def)
  from silent_fallback [OF pa] l(1,2) obtain w where
    w: "minimal_wav = Inr w" "length w = 44 + 48000"
      "generate_speech_with_gemini ?a ''Hello'' = w"
    by blast
  from silent_fallback [OF pb] l(3) q obtain w' where
    w': "minimal_wav = Inr w'" "generate_speech_with_gemini ?b ''Hello'' = w'"
    by (metis str_exn.simps(1))
  have "w = w'" using w(1) unfolding w'(1) by simp
  then show ?thesis using l q w w' by simp
qed

text \<open>
  Claim C4. When the request or the loop raises an exception whose text contains
  \<open>429\<close> or \<open>RESOURCE_EXHAUSTED\<close>, or contains \<open>quota\<close> in any letter case, the
  function returns the empty byte sequence as its value; nothing propagates.
\<close>

theorem quota_returns_empty:
  assumes "provider ev text_in = (chunks, failure)"
    and "stream_loop chunks failure initial_state = Inl e"
    and "is_quota_error (str_exn ev e)"
  shows "generate_speech_with_gemini ev text_in = []"
  using generate_of_exception [OF assms(1,2)] handler_quota [OF assms(3)] by simp

theorem quota_returns_empty_witness:
  "stream_loop [] (Some ''429 Too Many Requests'') initial_state
       = Inl (UpstreamError ''429 Too Many Requests'')
   \<and> is_quota_error ''429 Too Many Requests''
   \<and> generate_speech_with_gemini (sample_env [] (Some ''429 Too Many Requests'') []) ''Hello'' = []
   \<and> is_quota_error ''Quota exceeded''
   \<and> generate_speech_with_gemini
        (sample_env [audio_chunk [1] ''audio/x-wav''] (Some ''Quota exceeded'') []) ''Hello'' = []"
proof -
  have q: "is_quota_error ''429 Too Many Requests''" "is_quota_error ''Quota exceeded''"
    by (simp_all add: quota_eval)
  have 1: "generate_speech_with_gemini (sample_env [] (Some ''429 Too Many Requests'') []) ''Hello'' = []"
    by (rule quota_returns_empty [where chunks = "[]" and failure = "Some ''429 Too Many Requests''"
          and e = "UpstreamError ''429 Too Many Requests''"])
       (simp_all add: sample_env_def q)
  have 2: "generate_speech_with_gemini
        (sample_env [audio_chunk [1] ''audio/x-wav''] (Some ''Quota exceeded'') []) ''Hello'' = []"
    by (rule quota_returns_empty [where chunks = "[audio_chunk [1] ''audio/x-wav'']"
          and failure = "Some ''Quota exceeded''" and e = "UpstreamError ''Quota exceeded''"])
       (simp_all add: sample_env_def q chunk_eval)
  show ?thesis using q 1 2 by simp
qed

text \<open>
  Claim C6. For a text that is empty or consists of whitespace only, \<open>speak_text\<close>
  answers with the HTTP error 400 and no request has been handed to the provider,
  whatever the provider would have answered.
\<close>

theorem speak_text_rejects_blank:
  assumes "text_in = [] \<or> (\<forall>c\<in>set text_in. isspace c)"
  shows "speak_text ev text_in =
     (Inl \<lparr>status_code = 400,
           detail = ''ValueError in speak_text: Text cannot be empty or whitespace only''\<rparr>, [])"
proof -
  have "text_in = [] \<or> strip text_in = []"
    using assms all_space_strip by blast
  then show ?thesis by (simp add: speak_text_def)
qed

theorem speak_text_rejects_blank_witness:
  "list_all isspace '' ''
   \<and> speak_text (sample_env [audio_chunk [1] ''audio/x-wav''] None []) '' '' =
       (Inl \<lparr>status_code = 400,
             detail = ''ValueError in speak_text: Text cannot be empty or whitespace only''\<rparr>, [])
   \<and> speak_text (sample_env [audio_chunk [1] ''audio/x-wav''] None []) '''' =
       (Inl \<lparr>status_code = 400,
             detail = ''ValueError in speak_text: Text cannot be empty or whitespace only''\<rparr>, [])"
proof -
  have s: "\<forall>c\<in>set '' ''. isspace c" by (simp add: isspace_def)
  show ?thesis
    using speak_text_rejects_blank [of "'' ''" "sample_env [audio_chunk [1] ''audio/x-wav''] None []"]
      speak_text_rejects_blank [of "''''" "sample_env [audio_chunk [1] ''audio/x-wav''] None []"] s
    by (simp add: list_all_iff)
qed

text \<open>
  Claim C10. When the stream ends without an exception, the buffer is not empty and no
  MIME type was captured, the function returns the buffer as it is, with no header, as a
  normal result; \<open>speak_text\<close> sends these bytes with the media type \<open>audio/wav\<close>.
\<close>

theorem missing_mime_returns_payload:
  assumes "provider ev text_in = (chunks, failure)"
    and "stream_loop chunks failure initial_state = Inr st"
    and "audio_buffer st \<noteq> []"
    and "stream_mime st = None"
  shows "try_block ev text_in = Inr (audio_buffer st)
     \<and> generate_speech_with_gemini ev text_in = audio_buffer st
     \<and> (strip text_in \<noteq> [] \<longrightarrow>
          speak_text ev text_in =
            (Inr \<lparr>body = audio_buffer st, media_type = ''audio/wav''\<rparr>, [text_in]))"
proof -
  have t: "try_block ev text_in = Inr (audio_buffer st)"
    using try_block_payload [OF assms(1-3)] assms(4) by simp
  then have g: "generate_speech_with_gemini ev text_in = audio_buffer st"
    by (simp add: generate_speech_with_gemini_def)
  have "speak_text ev text_in =
            (Inr \<lparr>body = audio_buffer st, media_type = ''audio/wav''\<rparr>, [text_in])"
    if "strip text_in \<noteq> []"
  proof -
    have "text_in \<noteq> []" using that strip_Nil by auto
    then show ?thesis using that g assms(3) by (simp add: speak_text_def)
  qed
  with t g show ?thesis by blast
qed

theorem missing_mime_returns_payload_witness:
  "stream_loop [untyped_chunk [1, 2]] None initial_state
     = Inr \<lparr>audio_buffer = [1, 2], stream_mime = None, chunk_count = 1\<rparr>
   \<and> generate_speech_with_gemini (sample_env [untyped_chunk [1, 2]] None []) ''Hello'' = [1, 2]
   \<and> speak_text (sample_env [untyped_chunk [1, 2]] None []) ''Hello''
        = (Inr \<lparr>body = [1, 2], media_type = ''audio/wav''\<rparr>, [''Hello''])"
proof -
  let ?e = "sample_env [untyped_chunk [1, 2]] None []"
  have p: "provider ?e ''Hello'' = ([untyped_chunk [1, 2]], None)"
    by (simp add: sample_env_def)
  have l: "stream_loop [untyped_chunk [1, 2]] None initial_state
     = Inr \<lparr>audio_buffer = [1, 2], stream_mime = None, chunk_count = 1\<rparr>"
    by (simp add: chunk_eval)
  have s: "strip ''Hello'' \<noteq> []"
    by (simp add: strip_def isspace_def)
  show ?thesis
    using missing_mime_returns_payload [OF p l] s l by simp
qed

lemma convert_to_wav_header:
  assumes "fields_fit P (parse_audio_mime_type m)"
  shows "\<exists>hdr. length hdr = 44 \<and> convert_to_wav P m = Inr (hdr @ P)"
proof -
  from wav_of_params_header [OF assms] obtain w where
    w: "wav_of_params P (parse_audio_mime_type m) = Inr w" "length w = 44 + length P"
      "drop 44 w = P"
    by blast
  have "w = take 44 w @ P" using w(3) append_take_drop_id [of 44 w] by simp
  moreover have "length (take 44 w) = 44" using w(2) by simp
  ultimately show ?thesis using w(1) unfolding convert_to_wav_def by metis
qed

text \<open>
  Claim C7, as stated, fails: wrapping can raise. A stream of one audio chunk with the MIME
  type \<open>audio/L16;rate=4294967296\<close> leaves a payload and a MIME type whose extension
  is not \<open>.wav\<close>; \<open>convert_to_wav\<close> raises \<open>struct.error\<close> at the sample rate, and
  the function returns what the handler decides, here the empty byte sequence, since the
  text of this error contains \<open>429\<close>.
\<close>

theorem mime_wrapping_counterexample:
  "stream_loop [audio_chunk [0] ''audio/L16;rate=4294967296''] None initial_state
     = Inr \<lparr>audio_buffer = [0], stream_mime = Some ''audio/L16;rate=4294967296'',
            chunk_count = 1\<rparr>
   \<and> guess_extension
        (sample_env [audio_chunk [0] ''audio/L16;rate=4294967296''] None uint_range_text)
        ''audio/L16;rate=4294967296'' = None
   \<and> convert_to_wav [0] ''audio/L16;rate=4294967296''
        = Inl (StructError CHR ''I'' 4294967296)
   \<and> generate_speech_with_gemini
        (sample_env [audio_chunk [0] ''audio/L16;rate=4294967296''] None uint_range_text)
        ''Hello'' = []"
proof -
  let ?m = "''audio/L16;rate=4294967296''"
  let ?e = "sample_env [audio_chunk [0] ?m] None uint_range_text"
  have l: "stream_loop [audio_chunk [0] ?m] None initial_state
     = Inr \<lparr>audio_buffer = [0], stream_mime = Some ?m, chunk_count = 1\<rparr>"
    by (simp add: chunk_eval)
  have g: "guess_extension ?e ?m = None"
    by (simp add: sample_env_def lower_def lower_char_def)
  have p: "parse_audio_mime_type ?m = \<lparr>bits_per_sample = 16, rate = 4294967296\<rparr>"
    by (simp add: parse_eval)
  have c: "convert_to_wav [0] ?m = Inl (StructError CHR ''I'' 4294967296)"
    by (simp add: convert_to_wav_def p wav_of_params_def pack_I_def pack_H_def)
  have pr: "provider ?e ''Hello'' = ([audio_chunk [0] ?m], None)"
    by (simp add: sample_env_def)
  have t: "try_block ?e ''Hello'' = Inl (StructError CHR ''I'' 4294967296)"
    using try_block_payload [OF pr l] g c by simp
  have q: "is_quota_error (str_exn ?e (StructError CHR ''I'' 4294967296))"
    by (simp add: sample_env_def uint_range_text_def quota_eval)
  have "generate_speech_with_gemini ?e ''Hello'' = []"
    using t handler_quota [OF q] by (simp add: generate_speech_with_gemini_def)
  with l g c show ?thesis by simp
qed

text \<open>
  Claim C7, amended. Whenever the stream ends without an exception, the payload is not
  empty and a MIME type that is not the empty string was captured: if its guessed
  extension is \<open>.wav\<close>, the function returns the payload unmodified; otherwise, when the
  header fields of the parsed MIME type fit their widths, it returns the payload behind
  the 44-byte header that \<open>convert_to_wav\<close> makes from the parsed MIME type.
\<close>

theorem mime_decides_wrapping:
  assumes "provider ev text_in = (chunks, failure)"
    and "stream_loop chunks failure initial_state = Inr st"
    and "audio_buffer st \<noteq> []"
    and "stream_mime st = Some m"
    and "m \<noteq> []"
  shows "(guess_extension ev m = Some ''.wav'' \<longrightarrow>
            generate_speech_with_gemini ev text_in = audio_buffer st)
     \<and> (guess_extension ev m \<noteq> Some ''.wav'' \<longrightarrow>
          fields_fit (audio_buffer st) (parse_audio_mime_type m) \<longrightarrow>
            (\<exists>hdr. length hdr = 44
               \<and> convert_to_wav (audio_buffer st) m = Inr (hdr @ audio_buffer st)
               \<and> generate_speech_with_gemini ev text_in = hdr @ audio_buffer st))"
proof (intro conjI impI)
  assume "guess_extension ev m = Some ''.wav''"
  then have "try_block ev text_in = Inr (audio_buffer st)"
    using try_block_payload [OF assms(1-3)] assms(4) by simp
  then show "generate_speech_with_gemini ev text_in = audio_buffer st"
    by (simp add: generate_speech_with_gemini_def)
next
  assume g: "guess_extension ev m \<noteq> Some ''.wav''"
    and f: "fields_fit (audio_buffer st) (parse_audio_mime_type m)"
  from convert_to_wav_header [OF f] obtain hdr where
    h: "length hdr = 44" "convert_to_wav (audio_buffer st) m = Inr (hdr @ audio_buffer st)"
    by blast
  have "try_block ev text_in = Inr (hdr @ audio_buffer st)"
    using try_block_payload [OF assms(1-3)] assms(4,5) g h(2) by simp
  then have "generate_speech_with_gemini ev text_in = hdr @ audio_buffer st"
    by (simp add: generate_speech_with_gemini_def)
  with h show "\<exists>hdr. length hdr = 44
               \<and> convert_to_wav (audio_buffer st) m = Inr (hdr @ audio_buffer st)
               \<and> generate_speech_with_gemini ev text_in = hdr @ audio_buffer st"
    by blast
qed

theorem mime_decides_wrapping_witness:
  "guess_extension (sample_env [audio_chunk [1, 2] ''audio/x-wav''] None []) ''audio/x-wav''
     = Some ''.wav''
   \<and> generate_speech_with_gemini (sample_env [audio_chunk [1, 2] ''audio/x-wav''] None [])
        ''Hello'' = [1, 2]
   \<and> guess_extension (sample_env [audio_chunk [1, 2] ''audio/L16;rate=24000''] None [])
        ''audio/L16;rate=24000'' = None
   \<and> fields_fit [1, 2] (parse_audio_mime_type ''audio/L16;rate=24000'')
   \<and> (\<exists>hdr. length hdr = 44
         \<and> generate_speech_with_gemini
              (sample_env [audio_chunk [1, 2] ''audio/L16;rate=24000''] None []) ''Hello''
            = hdr @ [1, 2])"
proof -
  let ?a = "sample_env [audio_chunk [1, 2] ''audio/x-wav''] None []"
  let ?b = "sample_env [audio_chunk [1, 2] ''audio/L16;rate=24000''] None []"
  have pa: "provider ?a ''Hello'' = ([audio_chunk [1, 2] ''audio/x-wav''], None)"
    and pb: "provider ?b ''Hello'' = ([audio_chunk [1, 2] ''audio/L16;rate=24000''], None)"
    by (simp_all add: sample_env_def)
  have la: "stream_loop [audio_chunk [1, 2] ''audio/x-wav''] None initial_state
      = Inr \<lparr>audio_buffer = [1, 2], stream_mime = Some ''audio/x-wav'', chunk_count = 1\<rparr>"
    and lb: "stream_loop [audio_chunk [1, 2] ''audio/L16;rate=24000''] None initial_state
      = Inr \<lparr>audio_buffer = [1, 2], stream_mime = Some ''audio/L16;rate=24000'',
             chunk_count = 1\<rparr>"
    by (simp_all add: chunk_eval)
  have ga: "guess_extension ?a ''audio/x-wav'' = Some ''.wav''"
    and gb: "guess_extension ?b ''audio/L16;rate=24000'' = None"
    by (simp_all add: sample_env_def lower_def lower_char_def)
  have p: "parse_audio_mime_type ''audio/L16;rate=24000'' = \<lparr>bits_per_sample = 16, rate = 24000\<rparr>"
    by (simp add: parse_eval)
  have f: "fields_fit [1, 2] (parse_audio_mime_type ''audio/L16;rate=24000'')"
    by (simp add: p fields_fit_def)
  have 1: "generate_speech_with_gemini ?a ''Hello'' = [1, 2]"
    using mime_decides_wrapping [OF pa la] ga by simp
  have 2: "\<exists>hdr. length hdr = 44 \<and> generate_speech_with_gemini ?b ''Hello'' = hdr @ [1, 2]"
    using mime_decides_wrapping [OF pb lb] gb f by auto
  show ?thesis using ga gb f 1 2 by blast
qed

text \<open>
  Claim C9, as stated, fails in its bound: without any exception the function can return
  fewer than 44 bytes. A stream of one chunk that carries the single byte 7 and names no
  MIME type is returned as it is, one byte long.
\<close>

theorem short_result_counterexample:
  "try_block (sample_env [untyped_chunk [7]] None []) ''Hello'' = Inr [7]
   \<and> generate_speech_with_gemini (sample_env [untyped_chunk [7]] None []) ''Hello'' = [7]
   \<and> \<not> 44 \<le> length (generate_speech_with_gemini
                         (sample_env [untyped_chunk [7]] None []) ''Hello'')"
proof -
  have t: "try_block (sample_env [untyped_chunk [7]] None []) ''Hello'' = Inr [7]"
    by (simp add: try_block_def sample_env_def chunk_eval)
  then show ?thesis by (simp add: generate_speech_with_gemini_def)
qed

lemma minimal_wav_length: "\<exists>w. minimal_wav = Inr w \<and> length w = 48044"
  using minimal_wav_container by blast

lemma try_block_result:
  assumes "try_block ev t = Inr b"
  shows "b \<noteq> [] \<and> (44 \<le> length b \<or>
       (\<exists>st. stream_loop (fst (provider ev t)) (snd (provider ev t)) initial_state = Inr st
             \<and> b = audio_buffer st))"
proof -
  obtain chunks failure where p: "provider ev t = (chunks, failure)"
    by (cases "provider ev t")
  show ?thesis
  proof (cases "stream_loop chunks failure initial_state")
    case (Inl e)
    then show ?thesis using assms p by (simp add: try_block_def)
  next
    case (Inr st)
    show ?thesis
    proof (cases "audio_buffer st = []")
      case True
      then have "try_block ev t = minimal_wav"
        using p Inr by (simp add: try_block_def)
      with assms minimal_wav_length have "length b = 48044" by (metis sum.inject(2))
      then show ?thesis by auto
    next
      case False
      note tb = try_block_payload [OF p Inr False]
      show ?thesis
      proof (cases "try_block ev t = Inr (audio_buffer st)")
        case True
        then show ?thesis using assms False p Inr by auto
      next
        case ne: False
        then obtain m where "convert_to_wav (audio_buffer st) m = Inr b"
          using tb assms by (auto split: option.splits if_splits)
        then have "length b = 44 + length (audio_buffer st)"
          using wav_of_params_length by (simp add: convert_to_wav_def)
        then show ?thesis by auto
      qed
    qed
  qed
qed

text \<open>
  Claim C9, amended. The function returns the empty byte sequence only from the handler,
  after an exception whose text matches the quota test. On every run in which no
  exception leaves the \<open>try\<close> block the result is not empty; it has at least 44 bytes
  unless it is the aggregated payload returned unmodified.
\<close>

theorem empty_only_on_quota:
  "(generate_speech_with_gemini ev text_in = [] \<longrightarrow>
      (\<exists>e. try_block ev text_in = Inl e \<and> is_quota_error (str_exn ev e)))
   \<and> (\<forall>b. try_block ev text_in = Inr b \<longrightarrow>
         generate_speech_with_gemini ev text_in = b \<and> b \<noteq> []
         \<and> (44 \<le> length b \<or>
             (\<exists>st. stream_loop (fst (provider ev text_in)) (snd (provider ev text_in))
                      initial_state = Inr st
                   \<and> b = audio_buffer st)))"
proof (intro conjI impI allI)
  fix b assume t: "try_block ev text_in = Inr b"
  then show "generate_speech_with_gemini ev text_in = b"
    by (simp add: generate_speech_with_gemini_def)
  from try_block_result [OF t] show "b \<noteq> []" by simp
  from try_block_result [OF t] show "44 \<le> length b \<or>
             (\<exists>st. stream_loop (fst (provider ev text_in)) (snd (provider ev text_in))
                      initial_state = Inr st
                   \<and> b = audio_buffer st)" by simp
next
  assume z: "generate_speech_with_gemini ev text_in = []"
  show "\<exists>e. try_block ev text_in = Inl e \<and> is_quota_error (str_exn ev e)"
  proof (cases "try_block ev text_in")
    case (Inr b)
    then have "b = []" using z by (simp add: generate_speech_with_gemini_def)
    with try_block_result [OF Inr] show ?thesis by simp
  next
    case (Inl e)
    then have h: "handler ev e = []" using z by (simp add: generate_speech_with_gemini_def)
    have "is_quota_error (str_exn ev e)"
    proof (rule ccontr)
      assume n: "\<not> is_quota_error (str_exn ev e)"
      from minimal_wav_length obtain w where w: "minimal_wav = Inr w" "length w = 48044"
        by blast
      from handler_silent [OF n w(1)] h w(2) show False by simp
    qed
    with Inl show ?thesis by blast
  qed
qed

theorem empty_only_on_quota_witness:
  "generate_speech_with_gemini (sample_env [] (Some ''RESOURCE_EXHAUSTED'') []) ''Hello'' = []
   \<and> try_block (sample_env [] (Some ''RESOURCE_EXHAUSTED'') []) ''Hello''
        = Inl (UpstreamError ''RESOURCE_EXHAUSTED'')
   \<and> is_quota_error ''RESOURCE_EXHAUSTED''
   \<and> try_block (sample_env [audio_chunk [5] ''audio/x-wav''] None []) ''Hello'' = Inr [5]
   \<and> generate_speech_with_gemini (sample_env [audio_chunk [5] ''audio/x-wav''] None []) ''Hello''
        = [5]"
proof -
  let ?a = "sample_env [] (Some ''RESOURCE_EXHAUSTED'') []"
  let ?b = "sample_env [audio_chunk [5] ''audio/x-wav''] None []"
  have ta: "try_block ?a ''Hello'' = Inl (UpstreamError ''RESOURCE_EXHAUSTED'')"
    by (simp add: try_block_def sample_env_def)
  have q: "is_quota_error ''RESOURCE_EXHAUSTED''"
    by (simp add: quota_eval)
  have ga: "generate_speech_with_gemini ?a ''Hello'' = []"
    using ta q by (simp add: generate_speech_with_gemini_def handler_def)
  have tb: "try_block ?b ''Hello'' = Inr [5]"
    by (simp add: try_block_def sample_env_def chunk_eval lower_def lower_char_def)
  have "generate_speech_with_gemini ?b ''Hello'' = [5]"
    using empty_only_on_quota [of ?b "''Hello''"] tb by simp
  moreover have "\<exists>e. try_block ?a ''Hello'' = Inl e \<and> is_quota_error (str_exn ?a e)"
    using empty_only_on_quota [of ?a "''Hello''"] ga by simp
  ultimately show ?thesis using ga ta q tb by simp
qed

end
